theory Spec2Isabelle
  imports Main
begin

section \<open>Strings and the regular expressions of build.utils.ts\<close>

text \<open>
  JavaScript strings are modelled as \<open>string\<close>. The four regular expressions of the
  source are written out as the functions that the backtracking matcher computes for
  them; \<open>.\<close> matches every character except a line terminator (line feed and carriage
  return; the separators U+2028 and U+2029 are outside \<open>char\<close>), a negated class
  \<open>[^\/]\<close> matches every character except the slash, \<open>+\<close> is greedy and \<open>+?\<close> is lazy,
  and \<open>String.prototype.match\<close> returns the leftmost match.
\<close>

definition startsWith :: "string \<Rightarrow> string \<Rightarrow> bool" where
  "startsWith s p = (take (length p) s = p)"

definition endsWith :: "string \<Rightarrow> string \<Rightarrow> bool" where
  "endsWith s p = (length p \<le> length s \<and> drop (length s - length p) s = p)"

fun includesStr :: "string \<Rightarrow> string \<Rightarrow> bool" where
  "includesStr [] p = (p = [])"
| "includesStr (c # cs) p = (startsWith (c # cs) p \<or> includesStr cs p)"

fun join :: "string \<Rightarrow> string list \<Rightarrow> string" where
  "join sep [] = []"
| "join sep [x] = x"
| "join sep (x # y # ys) = x @ sep @ join sep (y # ys)"

definition lineTerminator :: "char \<Rightarrow> bool" where
  "lineTerminator c = (c = CHR 0x0A \<or> c = CHR 0x0D)"

definition slash :: char where
  "slash = CHR ''/''"

definition quote :: char where
  "quote = CHR 0x27"

text \<open>
  \<open>/Can't resolve '(.+)' in/\<close>. After the literal prefix the group takes characters of
  the current line; being greedy, it is the longest non-empty run that is followed by
  \<open>' in\<close>. \<open>longestBefore suffix line n\<close> tries the lengths \<open>n, n - 1, ..., 1\<close>.
\<close>

definition resolvePrefix :: string where
  "resolvePrefix = ''Can'' @ [quote] @ ''t resolve '' @ [quote]"

definition resolveSuffix :: string where
  "resolveSuffix = [quote] @ '' in''"

fun longestBefore :: "string \<Rightarrow> string \<Rightarrow> nat \<Rightarrow> string option" where
  "longestBefore suffix line 0 = None"
| "longestBefore suffix line (Suc n) =
     (if startsWith (drop (Suc n) line) suffix then Some (take (Suc n) line)
      else longestBefore suffix line n)"

fun missingModuleRegex :: "string \<Rightarrow> string option" where
  "missingModuleRegex [] = None"
| "missingModuleRegex (c # cs) =
     (if startsWith (c # cs) resolvePrefix then
        (let line = takeWhile (\<lambda>x. \<not> lineTerminator x) (drop (length resolvePrefix) (c # cs))
         in case longestBefore resolveSuffix line (length line) of
              Some path \<Rightarrow> Some path
            | None \<Rightarrow> missingModuleRegex cs)
      else missingModuleRegex cs)"

text \<open>
  \<open>/@[^\/]+\/[^\/]+/\<close>: at the leftmost \<open>@\<close> that is followed by a non-empty run without
  slash, one slash and another non-empty run without slash. Both runs are maximal.
\<close>

fun scopedNameRegex :: "string \<Rightarrow> string option" where
  "scopedNameRegex [] = None"
| "scopedNameRegex (c # cs) =
     (let scope = takeWhile (\<lambda>x. x \<noteq> slash) cs;
          rest = dropWhile (\<lambda>x. x \<noteq> slash) cs;
          pkg = takeWhile (\<lambda>x. x \<noteq> slash) (drop 1 rest)
      in if c = CHR ''@'' \<and> scope \<noteq> [] \<and> rest \<noteq> [] \<and> pkg \<noteq> []
         then Some (c # scope @ [slash] @ pkg)
         else scopedNameRegex cs)"

text \<open>\<open>/[^\/]+/\<close>: the first maximal run of characters other than the slash.\<close>

definition firstSegmentRegex :: "string \<Rightarrow> string option" where
  "firstSegmentRegex s =
     (let seg = takeWhile (\<lambda>x. x \<noteq> slash) (dropWhile (\<lambda>x. x = slash) s)
      in if seg = [] then None else Some seg)"

text \<open>
  \<open>/(.+?)\.bundle\.(.+)$/\<close>: from the leftmost possible start, the shortest non-empty
  run of line characters that is followed by \<open>.bundle.\<close> and by a non-empty run of line
  characters reaching the end of the string. The result is the pair of the two groups.
\<close>

fun lazyBeforeBundle :: "string \<Rightarrow> string \<Rightarrow> (string \<times> string) option" where
  "lazyBeforeBundle acc [] = None"
| "lazyBeforeBundle acc (c # cs) =
     (let ext = drop (length ''.bundle.'') (c # cs)
      in if startsWith (c # cs) ''.bundle.'' \<and> ext \<noteq> [] \<and> list_all (\<lambda>x. \<not> lineTerminator x) ext
         then Some (acc, ext)
         else if lineTerminator c then None
         else lazyBeforeBundle (acc @ [c]) cs)"

fun bundleRegex :: "string \<Rightarrow> (string \<times> string) option" where
  "bundleRegex [] = None"
| "bundleRegex (c # cs) =
     (if lineTerminator c then bundleRegex cs
      else case lazyBeforeBundle [c] cs of
             Some m \<Rightarrow> Some m
           | None \<Rightarrow> bundleRegex cs)"

section \<open>Data model\<close>

text \<open>
  Modelled from the spec: the types of \<open>common.types\<close> (\<open>WebpackError\<close>,
  \<open>BuildPackageOptions\<close>, \<open>CreateEntryPointOptions\<close>, \<open>Externals\<close>) are not among the
  sources; their fields are the ones build.utils.ts reads and the specification lists.
  A compiler error is what the source reads of it: \<open>name\<close>, the text of
  \<open>error.toString()\<close> and the text of its own \<open>toString()\<close>.
\<close>

record WebpackError =
  we_name :: string
  we_error :: string
  we_toString :: string

datatype minifier = terser | esbuild

record BuildPackageOptions =
  splitCustomImports :: bool
  customImports :: "string list option"
  debug :: bool
  minifier :: minifier
  calcParse :: bool
  includeDependencySizes :: bool

record CreateEntryPointOptions =
  esm :: bool
  ep_customImports :: "string list option"
  entryFilename :: "string option"

text \<open>
  Objects that the caller shares with the build live in a store: an \<open>Externals\<close> object
  is an address into \<open>objects\<close>, its \<open>externalPackages\<close> field an address into
  \<open>arrays\<close>. The other fields of the object are carried along unread.
\<close>

type_synonym ref = nat

record Externals =
  externalPackages :: ref
  otherFields :: "(string \<times> string list) list"

record BuildPackageArgs =
  name :: string
  installPath :: string
  externals :: ref
  options :: BuildPackageOptions

record CompilePackageArgs =
  cp_name :: string
  cp_externals :: ref
  entry :: "string \<Rightarrow> string option"
  cp_debug :: bool
  cp_minifier :: minifier

record WebpackStatsAsset =
  asset_name :: string
  asset_size :: nat
  chunkNames :: "string list"

text \<open>
  The JSON summary: \<open>assets\<close> is optional, \<open>errors\<close> is a list (the source's test
  \<open>errors && errors.length > 0\<close> sends an absent list and an empty one the same way).
\<close>

record JsonStats =
  json_assets :: "WebpackStatsAsset list option"
  json_errors :: "string list"

record Stats =
  compilation_errors :: "WebpackError list"
  toJson :: "JsonStats option"

record CompilePackageReturn =
  stats :: "Stats option"
  error :: "WebpackError option"
  memoryFileSystem :: "string \<Rightarrow> string option"

type_synonym parse_time = nat

type_synonym dependency_sizes = "(string \<times> nat) list"

record AssetStat =
  stat_name :: string
  stat_type :: string
  stat_size :: nat
  gzip :: nat
  parse :: "parse_time option"

record BuildResult =
  assets :: "AssetStat list"
  dependencySizes :: "dependency_sizes option"

datatype retry_result =
    Plain BuildResult
  | WithIgnoredMissingDependencies "string list" BuildResult

text \<open>
  Modelled from the spec: the error classes of \<open>errors/CustomError\<close> are not among the
  sources. Each of the five custom errors carries what its constructor is given; a
  \<open>MissingDependencyError\<close> carries the error strings and the missing modules, which the
  source reads as \<open>e.missingModules\<close> and as \<open>e.extra.missingModules\<close>. \<open>TypeError\<close> is
  the exception of the language for a property read on \<open>undefined\<close>,
  \<open>MemoryFileSystemError\<close> the one of \<open>readFileSync\<close> on a path that is not there.
\<close>

datatype original_error =
    FromCompiler WebpackError
  | FromStrings "string list"
  | FromFileSystem string

datatype build_error =
    BuildError original_error
  | CLIBuildError "string list"
  | EntryPointError original_error
  | MissingDependencyError "string list" "string list"
  | UnexpectedBuildError string
  | TypeError string
  | MemoryFileSystemError string

text \<open>
  The world a build runs in: the files on disk, the store, and the trace of the calls
  made so far (each entry into \<open>buildPackage\<close>, each file written, each compiler run).
  The calls to the logger, the console and the telemetry sink have no influence on a
  result and are left out.
\<close>

datatype event =
    BuildPackageCall BuildPackageArgs
  | WriteFile string string
  | CompileCall CompilePackageArgs

record world =
  files :: "string \<Rightarrow> string option"
  objects :: "ref \<Rightarrow> Externals"
  arrays :: "ref \<Rightarrow> string list"
  next_ref :: ref
  trace :: "event list"

fun buildCallsOf :: "event list \<Rightarrow> BuildPackageArgs list" where
  "buildCallsOf [] = []"
| "buildCallsOf (BuildPackageCall args # evs) = args # buildCallsOf evs"
| "buildCallsOf (ev # evs) = buildCallsOf evs"

fun compileCallsOf :: "event list \<Rightarrow> CompilePackageArgs list" where
  "compileCallsOf [] = []"
| "compileCallsOf (CompileCall args # evs) = args # compileCallsOf evs"
| "compileCallsOf (ev # evs) = compileCallsOf evs"

fun writesOf :: "event list \<Rightarrow> (string \<times> string) list" where
  "writesOf [] = []"
| "writesOf (WriteFile p content # evs) = (p, content) # writesOf evs"
| "writesOf (ev # evs) = writesOf evs"

text \<open>
  The collaborators that are not part of build.utils.ts are parameters: the path
  library, the working directory, the failure of a file write, the compiler (which sees
  the world it is called in, and does not write to the store), the check of package
  names, compression, parse time and the dependency size tree.

  The check of package names is the package \<open>is-valid-npm-name\<close>. Its result is
  \<open>true\<close> for a valid name and otherwise a string that says why the name is not valid.
  The source hands that result to \<open>every\<close>, which takes its truth value: a string
  counts as true unless it is empty.
\<close>

datatype name_check = ValidName | InvalidName string

definition truthy :: "name_check \<Rightarrow> bool" where
  "truthy c = (case c of ValidName \<Rightarrow> True | InvalidName reason \<Rightarrow> reason \<noteq> [])"

record env =
  path_join :: "string list \<Rightarrow> string"
  cwd :: string
  write_error :: "world \<Rightarrow> string \<Rightarrow> string option"
  webpack_run :: "world \<Rightarrow> CompilePackageArgs \<Rightarrow> CompilePackageReturn"
  isValidNPMName :: "string \<Rightarrow> name_check"
  gzipSync_length :: "string \<Rightarrow> nat"
  getParseTime :: "string \<Rightarrow> parse_time"
  getDependencySizes :: "string \<Rightarrow> JsonStats \<Rightarrow> minifier \<Rightarrow> dependency_sizes"

section \<open>createEntryPoint\<close>

definition importStatement :: "string \<Rightarrow> CreateEntryPointOptions \<Rightarrow> string" where
  "importStatement packageName opts =
     (if esm opts then
        (case ep_customImports opts of
           Some imports \<Rightarrow>
             [CHR 0x0A] @ ''          import { '' @ join '', '' imports @ '' } from ''
               @ [quote] @ packageName @ [quote] @ ''; '' @
             [CHR 0x0A] @ ''          console.log('' @ join '', '' imports @ '')'' @
             [CHR 0x0A] @ ''     ''
         | None \<Rightarrow>
             ''import p from '' @ [quote] @ packageName @ [quote] @ ''; console.log(p)'')
      else
        (case ep_customImports opts of
           Some imports \<Rightarrow>
             [CHR 0x0A] @ ''        const { '' @ join '', '' imports @ '' } = require(''
               @ [quote] @ packageName @ [quote] @ ''); '' @
             [CHR 0x0A] @ ''        console.log('' @ join '', '' imports @ '')'' @
             [CHR 0x0A] @ ''        ''
         | None \<Rightarrow>
             ''const p = require('' @ [quote] @ packageName @ [quote] @ ''); console.log(p)''))"





definition writeFileSync :: "env \<Rightarrow> string \<Rightarrow> string \<Rightarrow> world \<Rightarrow> string + world" where
  "writeFileSync e p content w =
     (case write_error e w p of
        Some err \<Rightarrow> Inl err
      | None \<Rightarrow> Inr (w\<lparr>files := (files w)(p := Some content),
                        trace := trace w @ [WriteFile p content]\<rparr>))"

definition createEntryPoint ::
  "env \<Rightarrow> string \<Rightarrow> string \<Rightarrow> CreateEntryPointOptions \<Rightarrow> world \<Rightarrow> (build_error + string) \<times> world"
where
  "createEntryPoint e packageName installPath' opts w =
     (let entryPath = path_join e [installPath',
            (case entryFilename opts of
               None \<Rightarrow> ''index.js''
             | Some f \<Rightarrow> if f = [] then ''index.js'' else f)]
      in case writeFileSync e entryPath (importStatement packageName opts) w of
           Inl err \<Rightarrow> (Inl (EntryPointError (FromFileSystem err)), w)
         | Inr w' \<Rightarrow> (Inr entryPath, w'))"

section \<open>compilePackage\<close>

definition compilePackage :: "env \<Rightarrow> CompilePackageArgs \<Rightarrow> world \<Rightarrow> CompilePackageReturn \<times> world" where
  "compilePackage e args w = (webpack_run e w args, w\<lparr>trace := trace w @ [CompileCall args]\<rparr>)"

section \<open>The classifier \<open>_parseMissingModules\<close>\<close>

fun mapThrowing :: "('a \<Rightarrow> 'e + 'b) \<Rightarrow> 'a list \<Rightarrow> 'e + 'b list" where
  "mapThrowing f [] = Inr []"
| "mapThrowing f (x # xs) =
     (case f x of
        Inl err \<Rightarrow> Inl err
      | Inr y \<Rightarrow> (case mapThrowing f xs of Inl err \<Rightarrow> Inl err | Inr ys \<Rightarrow> Inr (y # ys)))"

text \<open>\<open>Array.from(new Set(xs))\<close>: the elements in the order of their first occurrence.\<close>

definition setAdd :: "'a list \<Rightarrow> 'a \<Rightarrow> 'a list" where
  "setAdd acc x = (if x \<in> set acc then acc else acc @ [x])"

definition arrayFromSet :: "'a list \<Rightarrow> 'a list" where
  "arrayFromSet xs = foldl setAdd [] xs"

definition missingModuleOf :: "WebpackError \<Rightarrow> build_error + string" where
  "missingModuleOf err =
     (case missingModuleRegex (we_error err) of
        None \<Rightarrow> Inl (UnexpectedBuildError
          ''Expected to find a file path in the module not found error, but found none. Regex for this might be out of date.'')
      | Some missingFilePath \<Rightarrow>
          (case (if startsWith missingFilePath ''@'' then scopedNameRegex missingFilePath
                 else firstSegmentRegex missingFilePath) of
             None \<Rightarrow> Inl (UnexpectedBuildError
               ''Failed to resolve the missing package name. Regex for this might be out of date.'')
           | Some packageName \<Rightarrow> Inr packageName))"

definition parseMissingModules :: "WebpackError list \<Rightarrow> build_error + string list" where
  "parseMissingModules errors =
     (let missingModuleErrors = filter (\<lambda>err. we_name err = ''ModuleNotFoundError'') errors
      in if missingModuleErrors = [] then Inr []
         else case mapThrowing missingModuleOf missingModuleErrors of
                Inl err \<Rightarrow> Inl err
              | Inr missingModules \<Rightarrow>
                  (case arrayFromSet missingModules of
                     [] \<Rightarrow> Inr []
                   | first # others \<Rightarrow>
                       Inr (filter (\<lambda>m. \<not> startsWith m (first @ ''/'')) (first # others))))"

section \<open>buildPackage\<close>

text \<open>
  The entry map is a plain object, modelled by its own properties. An assignment
  \<open>entry[k] = v\<close> of a string \<open>v\<close> sets the property \<open>k\<close>, except for the key
  \<open>__proto__\<close>, where it reaches the setter of the prototype, which ignores a string
  and creates no property.
\<close>

definition assignEntry ::
  "string \<Rightarrow> string \<Rightarrow> (string \<Rightarrow> string option) \<Rightarrow> (string \<Rightarrow> string option)"
where
  "assignEntry k v ent = (if k = ''__proto__'' then ent else ent(k := Some v))"

text \<open>
  The \<open>forEach\<close> of split mode: one module-syntax entry point per import, written in
  order; a failed write ends the loop with its error.
\<close>

fun splitEntries ::
  "env \<Rightarrow> string \<Rightarrow> string \<Rightarrow> string list \<Rightarrow> (string \<Rightarrow> string option) \<Rightarrow> world
     \<Rightarrow> (build_error + (string \<Rightarrow> string option)) \<times> world"
where
  "splitEntries e packageName installPath' [] acc w = (Inr acc, w)"
| "splitEntries e packageName installPath' (importt # rest) acc w =
     (case createEntryPoint e packageName installPath'
             \<lparr>esm = True, ep_customImports = Some [importt], entryFilename = Some importt\<rparr> w of
        (Inl err, w') \<Rightarrow> (Inl err, w')
      | (Inr entryPath, w') \<Rightarrow>
          splitEntries e packageName installPath' rest (assignEntry importt entryPath acc) w')"

text \<open>
  Lines 183 to 201. The result \<open>Inr None\<close> is the early return of \<open>{ assets: [] }\<close>,
  \<open>Inr (Some entry)\<close> the entry map handed to the compiler.
\<close>

definition makeEntry ::
  "env \<Rightarrow> BuildPackageArgs \<Rightarrow> world
     \<Rightarrow> (build_error + (string \<Rightarrow> string option) option) \<times> world"
where
  "makeEntry e args w =
     (if splitCustomImports (options args) then
        (case customImports (options args) of
           None \<Rightarrow> (Inr None, w)
         | Some imports \<Rightarrow>
             if imports = [] then (Inr None, w)
             else (case splitEntries e (name args) (installPath args) imports (\<lambda>k. None) w of
                     (Inl err, w') \<Rightarrow> (Inl err, w')
                   | (Inr ent, w') \<Rightarrow> (Inr (Some ent), w')))
      else
        (case createEntryPoint e (name args) (installPath args)
                \<lparr>esm = False, ep_customImports = customImports (options args),
                 entryFilename = None\<rparr> w of
           (Inl err, w') \<Rightarrow> (Inl err, w')
         | (Inr entryPath, w') \<Rightarrow>
             (Inr (Some (assignEntry ''main'' entryPath (\<lambda>k. None))), w')))"

text \<open>Lines 280 to 308: the statistics of one asset.\<close>

definition noBundleSuffix :: "string \<Rightarrow> string" where
  "noBundleSuffix assetName =
     ''Found an asset without the `.bundle` suffix. '' @
     ''A loader customization might be needed to recognize this asset type'' @ assetName"

definition bundleReadable :: "env \<Rightarrow> (string \<Rightarrow> string option) \<Rightarrow> WebpackStatsAsset \<Rightarrow> bool" where
  "bundleReadable e mfs asset = (mfs (path_join e [cwd e, ''dist'', asset_name asset]) \<noteq> None)"

definition getAssetStats ::
  "env \<Rightarrow> BuildPackageOptions \<Rightarrow> (string \<Rightarrow> string option) \<Rightarrow> WebpackStatsAsset
     \<Rightarrow> build_error + AssetStat"
where
  "getAssetStats e opts mfs asset =
     (let bundle = path_join e [cwd e, ''dist'', asset_name asset]
      in case mfs bundle of
           None \<Rightarrow> Inl (MemoryFileSystemError bundle)
         | Some bundleContents \<Rightarrow>
             (let parseTimes = (if calcParse opts then Some (getParseTime e bundleContents) else None);
                  gz = gzipSync_length e bundleContents
              in case bundleRegex (asset_name asset) of
                   None \<Rightarrow> Inl (UnexpectedBuildError (noBundleSuffix (asset_name asset)))
                 | Some (entryName, extension) \<Rightarrow>
                     Inr \<lparr>stat_name = entryName, stat_type = extension,
                          stat_size = asset_size asset, gzip = gz, parse = parseTimes\<rparr>))"

definition survivingAssets :: "WebpackStatsAsset list \<Rightarrow> WebpackStatsAsset list" where
  "survivingAssets as =
     filter (\<lambda>asset. \<not> endsWith (asset_name asset) ''LICENSE.txt'')
       (filter (\<lambda>asset. ''runtime'' \<notin> set (chunkNames asset)) as)"

text \<open>Lines 310 to 328: the result of a compilation without errors.\<close>

definition buildSucceeded ::
  "env \<Rightarrow> BuildPackageArgs \<Rightarrow> JsonStats \<Rightarrow> (string \<Rightarrow> string option) \<Rightarrow> build_error + BuildResult"
where
  "buildSucceeded e args jsonStats mfs =
     (case (case json_assets jsonStats of
              None \<Rightarrow> Inr None
            | Some as \<Rightarrow>
                (case mapThrowing (getAssetStats e (options args) mfs) (survivingAssets as) of
                   Inl err \<Rightarrow> Inl err
                 | Inr sts \<Rightarrow> Inr (Some sts))) of
        Inl err \<Rightarrow> Inl err
      | Inr assetStats \<Rightarrow>
          Inr \<lparr>assets = (case assetStats of None \<Rightarrow> [] | Some sts \<Rightarrow> sts),
               dependencySizes =
                 (if includeDependencySizes (options args)
                  then Some (getDependencySizes e (name args) jsonStats (minifier (options args)))
                  else None)\<rparr>)"

text \<open>Lines 249 to 278: the compilation has errors.\<close>

definition buildFailed :: "string \<Rightarrow> WebpackError list \<Rightarrow> JsonStats \<Rightarrow> build_error" where
  "buildFailed packageName errors jsonStats =
     (case parseMissingModules errors of
        Inl err \<Rightarrow> err
      | Inr missingModules \<Rightarrow>
          if missingModules \<noteq> [] then
            (if length missingModules = 1 \<and> missingModules ! 0 = packageName
             then EntryPointError (FromStrings (map we_toString errors))
             else MissingDependencyError (map we_toString errors) missingModules)
          else if json_errors jsonStats \<noteq> [] then
            (if list_ex (\<lambda>err. includesStr err (''Unexpected character '' @ [quote] @ ''#'' @ [quote]))
                  (json_errors jsonStats)
             then CLIBuildError (json_errors jsonStats)
             else BuildError (FromStrings (json_errors jsonStats)))
          else UnexpectedBuildError ''The webpack stats object was unexpectedly empty'')"

text \<open>
  Lines 216 to 329, everything after the compiler has returned. \<open>stats.toJson\<close> is
  read first, on whatever \<open>stats\<close> is; the test \<open>error && !stats\<close> comes after it.
\<close>

definition interpretOutcome ::
  "env \<Rightarrow> BuildPackageArgs \<Rightarrow> CompilePackageReturn \<Rightarrow> build_error + BuildResult"
where
  "interpretOutcome e args ret =
     (case stats ret of
        None \<Rightarrow> Inl (TypeError ''Cannot read property toJson of undefined'')
      | Some st \<Rightarrow>
          (case toJson st of
             None \<Rightarrow> Inl (UnexpectedBuildError
               ''Expected webpack json stats to be non-null, but was null'')
           | Some jsonStats \<Rightarrow>
               (case (error ret, stats ret) of
                  (Some err, None) \<Rightarrow> Inl (BuildError (FromCompiler err))
                | (None, None) \<Rightarrow> Inl (TypeError ''Cannot read property compilation of undefined'')
                | (_, Some st') \<Rightarrow>
                    if compilation_errors st' \<noteq> []
                    then Inl (buildFailed (name args) (compilation_errors st') jsonStats)
                    else buildSucceeded e args jsonStats (memoryFileSystem ret))))"

definition enter :: "BuildPackageArgs \<Rightarrow> world \<Rightarrow> world" where
  "enter args w = w\<lparr>trace := trace w @ [BuildPackageCall args]\<rparr>"

definition compileArgs ::
  "BuildPackageArgs \<Rightarrow> (string \<Rightarrow> string option) \<Rightarrow> CompilePackageArgs"
where
  "compileArgs args ent =
     \<lparr>cp_name = name args, cp_externals = externals args, entry = ent,
      cp_debug = debug (options args), cp_minifier = minifier (options args)\<rparr>"

definition buildPackage ::
  "env \<Rightarrow> BuildPackageArgs \<Rightarrow> world \<Rightarrow> (build_error + BuildResult) \<times> world"
where
  "buildPackage e args w =
     (case makeEntry e args (enter args w) of
        (Inl err, w1) \<Rightarrow> (Inl err, w1)
      | (Inr None, w1) \<Rightarrow> (Inr \<lparr>assets = [], dependencySizes = None\<rparr>, w1)
      | (Inr (Some ent), w1) \<Rightarrow>
          (case compilePackage e (compileArgs args ent) w1 of
             (ret, w2) \<Rightarrow> (interpretOutcome e args ret, w2)))"

section \<open>buildPackageIgnoringMissingDeps\<close>

text \<open>
  Lines 360 to 363: \<open>concat\<close> allocates a new array, the object literal with the spread
  allocates a new object that shares every other field with the old one.
\<close>

definition widenExternals :: "ref \<Rightarrow> string list \<Rightarrow> world \<Rightarrow> ref \<times> world" where
  "widenExternals ext missingModules w =
     (let old = objects w ext;
          arr = next_ref w;
          obj = Suc (next_ref w)
      in (obj, w\<lparr>arrays := (arrays w)(arr := arrays w (externalPackages old) @ missingModules),
                 objects := (objects w)(obj := old\<lparr>externalPackages := arr\<rparr>),
                 next_ref := Suc (Suc (next_ref w))\<rparr>))"

text \<open>Line 357: \<open>e.missingModules.every(mod => isValidNPMName(mod))\<close>.\<close>

definition everyNameChecked :: "env \<Rightarrow> string list \<Rightarrow> bool" where
  "everyNameChecked e missingModules = list_all (\<lambda>m. truthy (isValidNPMName e m)) missingModules"

definition buildPackageIgnoringMissingDeps ::
  "env \<Rightarrow> BuildPackageArgs \<Rightarrow> world \<Rightarrow> (build_error + retry_result) \<times> world"
where
  "buildPackageIgnoringMissingDeps e args w =
     (case buildPackage e args w of
        (Inr buildResult, w1) \<Rightarrow> (Inr (Plain buildResult), w1)
      | (Inl err, w1) \<Rightarrow>
          (case err of
             MissingDependencyError original missingModules \<Rightarrow>
               if length missingModules \<le> 6 \<and> everyNameChecked e missingModules then
                 (case widenExternals (externals args) missingModules w1 of
                    (newExternals, w2) \<Rightarrow>
                      (case buildPackage e (args\<lparr>externals := newExternals\<rparr>) w2 of
                         (Inl err2, w3) \<Rightarrow> (Inl err2, w3)
                       | (Inr rebuiltResult, w3) \<Rightarrow>
                           (Inr (WithIgnoredMissingDependencies missingModules rebuiltResult), w3)))
               else (Inl err, w1)
           | _ \<Rightarrow> (Inl err, w1)))"

section \<open>Scenarios\<close>

text \<open>
  Concrete collaborators, used to run the definitions: package \<open>foo\<close> is built in
  \<open>/tmp/foo\<close> by a compiler whose behaviour is a parameter of the environment. The
  caller's externals object is at address 1, its empty \<open>externalPackages\<close> array at
  address 0.
\<close>

definition moduleNotFound :: "string \<Rightarrow> WebpackError" where
  "moduleNotFound request =
     \<lparr>we_name = ''ModuleNotFoundError'',
      we_error = ''Error: '' @ resolvePrefix @ request @ resolveSuffix @ '' /tmp/foo'',
      we_toString = ''Module not found: '' @ request\<rparr>"

definition failedStats :: "WebpackError list \<Rightarrow> Stats" where
  "failedStats errs =
     \<lparr>compilation_errors = errs,
      toJson = Some \<lparr>json_assets = Some [], json_errors = map we_toString errs\<rparr>\<rparr>"

definition bundledStats :: "WebpackStatsAsset list option \<Rightarrow> Stats" where
  "bundledStats as =
     \<lparr>compilation_errors = [], toJson = Some \<lparr>json_assets = as, json_errors = []\<rparr>\<rparr>"

definition mainAsset :: WebpackStatsAsset where
  "mainAsset = \<lparr>asset_name = ''main.bundle.js'', asset_size = 1000, chunkNames = [''main'']\<rparr>"

definition statsJsonAsset :: WebpackStatsAsset where
  "statsJsonAsset = \<lparr>asset_name = ''stats.json'', asset_size = 10, chunkNames = []\<rparr>"

text \<open>What \<open>mainAsset\<close> becomes, its bundle having 12 characters.\<close>

definition mainStat :: AssetStat where
  "mainStat = \<lparr>stat_name = ''main'', stat_type = ''js'', stat_size = 1000, gzip = 12, parse = None\<rparr>"

definition outputFiles :: "string \<Rightarrow> string option" where
  "outputFiles p =
     (if p = ''/work/dist/main.bundle.js'' then Some ''bundled code''
      else if p = ''/work/dist/stats.json'' then Some ''{}''
      else None)"

definition failing :: "WebpackError list \<Rightarrow> CompilePackageReturn" where
  "failing errs = \<lparr>stats = Some (failedStats errs), error = None, memoryFileSystem = (\<lambda>p. None)\<rparr>"

definition bundling :: "WebpackStatsAsset list option \<Rightarrow> CompilePackageReturn" where
  "bundling as = \<lparr>stats = Some (bundledStats as), error = None, memoryFileSystem = outputFiles\<rparr>"

definition externalized :: "world \<Rightarrow> CompilePackageArgs \<Rightarrow> string list" where
  "externalized w args = arrays w (externalPackages (objects w (cp_externals args)))"

text \<open>A compiler that resolves \<open>bar\<close> only when it is externalized.\<close>

definition compilerNeedsBar :: "world \<Rightarrow> CompilePackageArgs \<Rightarrow> CompilePackageReturn" where
  "compilerNeedsBar w args =
     (if ''bar'' \<in> set (externalized w args) then bundling (Some [mainAsset])
      else failing [moduleNotFound ''bar/lib/index''])"

text \<open>A compiler that never resolves \<open>bar\<close>, and one that misses seven packages.\<close>

definition compilerNeverBar :: "world \<Rightarrow> CompilePackageArgs \<Rightarrow> CompilePackageReturn" where
  "compilerNeverBar w args = failing [moduleNotFound ''bar'']"

definition compilerSevenMissing :: "world \<Rightarrow> CompilePackageArgs \<Rightarrow> CompilePackageReturn" where
  "compilerSevenMissing w args =
     failing (map moduleNotFound [''a'', ''b'', ''c'', ''d'', ''e'', ''f'', ''g''])"

text \<open>A compiler that cannot run: an invocation error and no stats.\<close>

definition invocationError :: WebpackError where
  "invocationError = \<lparr>we_name = ''Error'', we_error = ''EMFILE'', we_toString = ''Error: EMFILE''\<rparr>"

definition compilerCannotRun :: "world \<Rightarrow> CompilePackageArgs \<Rightarrow> CompilePackageReturn" where
  "compilerCannotRun w args =
     \<lparr>stats = None, error = Some invocationError, memoryFileSystem = (\<lambda>p. None)\<rparr>"

text \<open>Compilers that succeed: with a stray asset, and with no asset list in the summary.\<close>

definition compilerStrayAsset :: "world \<Rightarrow> CompilePackageArgs \<Rightarrow> CompilePackageReturn" where
  "compilerStrayAsset w args = bundling (Some [mainAsset, statsJsonAsset])"

definition compilerNoAssets :: "world \<Rightarrow> CompilePackageArgs \<Rightarrow> CompilePackageReturn" where
  "compilerNoAssets w args = bundling None"

text \<open>
  A compiler that resolves \<open>UPPER\<close> only when it is externalized, and a check of names
  that refuses \<open>UPPER\<close>, so named because a package name may not have capital letters.
\<close>

definition compilerNeedsUpper :: "world \<Rightarrow> CompilePackageArgs \<Rightarrow> CompilePackageReturn" where
  "compilerNeedsUpper w args =
     (if ''UPPER'' \<in> set (externalized w args) then bundling (Some [mainAsset])
      else failing [moduleNotFound ''UPPER''])"

definition scenarioNameCheck :: "string \<Rightarrow> name_check" where
  "scenarioNameCheck s =
     (if s = ''UPPER'' then InvalidName ''package name cannot contain uppercase letters''
      else ValidName)"

definition scenarioEnv :: "(world \<Rightarrow> CompilePackageArgs \<Rightarrow> CompilePackageReturn) \<Rightarrow> env" where
  "scenarioEnv compiler =
     \<lparr>path_join = join ''/'', cwd = ''/work'', write_error = (\<lambda>w p. None),
      webpack_run = compiler, isValidNPMName = scenarioNameCheck,
      gzipSync_length = length, getParseTime = length,
      getDependencySizes = (\<lambda>n j m. [])\<rparr>"

definition initialWorld :: world where
  "initialWorld =
     \<lparr>files = (\<lambda>p. None),
      objects = (\<lambda>r. \<lparr>externalPackages = 0, otherFields = []\<rparr>),
      arrays = (\<lambda>r. []),
      next_ref = 2,
      trace = []\<rparr>"

definition plainOptions :: BuildPackageOptions where
  "plainOptions =
     \<lparr>splitCustomImports = False, customImports = None, debug = False,
      minifier = terser, calcParse = False, includeDependencySizes = False\<rparr>"

definition fooArgs :: BuildPackageArgs where
  "fooArgs = \<lparr>name = ''foo'', installPath = ''/tmp/foo'', externals = 1, options = plainOptions\<rparr>"

abbreviation mainEntry :: "string \<Rightarrow> string option" where
  "mainEntry \<equiv> assignEntry ''main'' ''/tmp/foo/index.js'' (\<lambda>k. None)"

definition splitNothingArgs :: BuildPackageArgs where
  "splitNothingArgs =
     fooArgs\<lparr>options := plainOptions\<lparr>splitCustomImports := True, customImports := Some []\<rparr>\<rparr>"



section \<open>The trace and the store across a build\<close>

lemma buildCallsOf_append: "buildCallsOf (xs @ ys) = buildCallsOf xs @ buildCallsOf ys"
  by (induction xs rule: buildCallsOf.induct) simp_all

lemma compileCallsOf_append: "compileCallsOf (xs @ ys) = compileCallsOf xs @ compileCallsOf ys"
  by (induction xs rule: compileCallsOf.induct) simp_all

lemma writesOf_append: "writesOf (xs @ ys) = writesOf xs @ writesOf ys"
  by (induction xs rule: writesOf.induct) simp_all

text \<open>
  Writing entry points and running the compiler leave the store alone and add no
  \<open>buildPackage\<close> call to the trace; a build adds exactly its own.
\<close>

lemma createEntryPoint_frame:
  "createEntryPoint e n p opts w = (r, w') \<Longrightarrow>
     objects w' = objects w \<and> arrays w' = arrays w \<and> next_ref w' = next_ref w \<and>
     buildCallsOf (trace w') = buildCallsOf (trace w) \<and>
     compileCallsOf (trace w') = compileCallsOf (trace w)"
  by (auto simp: createEntryPoint_def writeFileSync_def Let_def buildCallsOf_append compileCallsOf_append
      split: sum.splits option.splits)

lemma splitEntries_frame:
  "splitEntries e n p names acc w = (r, w') \<Longrightarrow>
     objects w' = objects w \<and> arrays w' = arrays w \<and> next_ref w' = next_ref w \<and>
     buildCallsOf (trace w') = buildCallsOf (trace w) \<and>
     compileCallsOf (trace w') = compileCallsOf (trace w)"
proof (induction names arbitrary: acc w)
  case Nil
  then show ?case by simp
next
  case (Cons importt rest)
  obtain r1 w1 where c: "createEntryPoint e n p
      \<lparr>esm = True, ep_customImports = Some [importt], entryFilename = Some importt\<rparr> w = (r1, w1)"
    by (cases "createEntryPoint e n p
      \<lparr>esm = True, ep_customImports = Some [importt], entryFilename = Some importt\<rparr> w")
  note f = createEntryPoint_frame [OF c]
  show ?case
  proof (cases r1)
    case (Inl err)
    with Cons.prems c f show ?thesis by simp
  next
    case (Inr entryPath)
    with Cons.prems c have "splitEntries e n p rest (assignEntry importt entryPath acc) w1 = (r, w')"
      by simp
    from Cons.IH [OF this] f show ?thesis by simp
  qed
qed

lemma makeEntry_frame:
  "makeEntry e args w = (r, w') \<Longrightarrow>
     objects w' = objects w \<and> arrays w' = arrays w \<and> next_ref w' = next_ref w \<and>
     buildCallsOf (trace w') = buildCallsOf (trace w) \<and>
     compileCallsOf (trace w') = compileCallsOf (trace w)"
  unfolding makeEntry_def
  by (auto split: if_splits option.splits prod.splits sum.splits
      dest: splitEntries_frame createEntryPoint_frame)

lemma buildPackage_frame:
  "buildPackage e args w = (r, w') \<Longrightarrow>
     objects w' = objects w \<and> arrays w' = arrays w \<and> next_ref w' = next_ref w \<and>
     buildCallsOf (trace w') = buildCallsOf (trace w) @ [args]"
  unfolding buildPackage_def compilePackage_def
  by (auto split: prod.splits sum.splits option.splits dest!: makeEntry_frame
      simp: enter_def buildCallsOf_append)

lemma widenExternals_store:
  "widenExternals ext mm w = (ne, w2) \<Longrightarrow>
     ne = Suc (next_ref w) \<and>
     externalPackages (objects w2 ne) = next_ref w \<and>
     otherFields (objects w2 ne) = otherFields (objects w ext) \<and>
     arrays w2 (next_ref w) = arrays w (externalPackages (objects w ext)) @ mm \<and>
     next_ref w2 = Suc (Suc (next_ref w)) \<and>
     trace w2 = trace w \<and> files w2 = files w \<and>
     (\<forall>r. r < next_ref w \<longrightarrow> objects w2 r = objects w r \<and> arrays w2 r = arrays w r)"
  by (auto simp: widenExternals_def Let_def)

section \<open>The steps of a build\<close>

text \<open>
  Once the entry points are written, a build is the interpretation of what the compiler
  returns in the world left by the writes.
\<close>

lemma buildPackage_compiled:
  "makeEntry e args (enter args w) = (Inr (Some ent), w1) \<Longrightarrow>
   buildPackage e args w =
     (interpretOutcome e args (webpack_run e w1 (compileArgs args ent)),
      w1\<lparr>trace := trace w1 @ [CompileCall (compileArgs args ent)]\<rparr>)"
  by (simp add: buildPackage_def compilePackage_def)

lemma distinct_foldl_setAdd: "distinct acc \<Longrightarrow> distinct (foldl setAdd acc xs)"
  by (induction xs arbitrary: acc) (simp_all add: setAdd_def)

lemma set_foldl_setAdd: "set (foldl setAdd acc xs) = set acc \<union> set xs"
  by (induction xs arbitrary: acc) (auto simp: setAdd_def)

lemma distinct_arrayFromSet: "distinct (arrayFromSet xs)"
  by (simp add: arrayFromSet_def distinct_foldl_setAdd)

lemma set_arrayFromSet: "set (arrayFromSet xs) = set xs"
  by (simp add: arrayFromSet_def set_foldl_setAdd)

lemma parseMissingModules_distinct: "parseMissingModules errs = Inr mm \<Longrightarrow> distinct mm"
  unfolding parseMissingModules_def Let_def
  by (auto split: if_splits sum.splits list.splits
      dest: arg_cong [where f = distinct] simp: distinct_arrayFromSet)

lemma parseMissingModules_nonempty:
  "parseMissingModules errs = Inr mm \<Longrightarrow> mm \<noteq> [] \<Longrightarrow> errs \<noteq> []"
  by (auto simp: parseMissingModules_def)

lemma mapThrowing_Inl: "mapThrowing f xs = Inl err \<Longrightarrow> \<exists>x \<in> set xs. f x = Inl err"
  by (induction xs arbitrary: err) (auto split: sum.splits)

lemma mapThrowing_Inr: "mapThrowing f xs = Inr ys \<Longrightarrow> x \<in> set xs \<Longrightarrow> \<exists>y. f x = Inr y"
  by (induction xs arbitrary: ys) (auto split: sum.splits)

lemma getAssetStats_no_match:
  "bundleRegex (asset_name asset) = None \<Longrightarrow> \<exists>err. getAssetStats e opts mfs asset = Inl err"
  by (simp add: getAssetStats_def Let_def split: option.splits)

lemma getAssetStats_readable_Inl:
  "bundleReadable e mfs asset \<Longrightarrow> getAssetStats e opts mfs asset = Inl err \<Longrightarrow>
   bundleRegex (asset_name asset) = None \<and> err = UnexpectedBuildError (noBundleSuffix (asset_name asset))"
  by (auto simp: getAssetStats_def bundleReadable_def Let_def split: option.splits)





section \<open>The scenarios, evaluated\<close>

lemmas string_defs = startsWith_def endsWith_def lineTerminator_def slash_def quote_def
  resolvePrefix_def resolveSuffix_def

lemma scenario_makeEntry:
  assumes "options args = plainOptions" and "installPath args = ''/tmp/foo''"
  shows "makeEntry (scenarioEnv c) args w =
           (Inr (Some mainEntry), snd (makeEntry (scenarioEnv c) args w))"
  using assms
  by (simp add: makeEntry_def createEntryPoint_def writeFileSync_def scenarioEnv_def
      plainOptions_def Let_def)

lemma scenario_store:
  assumes "options args = plainOptions" and "installPath args = ''/tmp/foo''"
  shows "objects (snd (makeEntry (scenarioEnv c) args (enter args w))) = objects w"
    and "arrays (snd (makeEntry (scenarioEnv c) args (enter args w))) = arrays w"
  using makeEntry_frame [OF scenario_makeEntry [OF assms, of c "enter args w"]]
  by (simp_all add: enter_def)

lemma scenario_buildPackage:
  assumes "options args = plainOptions" and "installPath args = ''/tmp/foo''"
  shows "fst (buildPackage (scenarioEnv c) args w) =
           interpretOutcome (scenarioEnv c) args
             (c (snd (makeEntry (scenarioEnv c) args (enter args w)))
                (compileArgs args mainEntry))"
  using buildPackage_compiled [OF scenario_makeEntry [OF assms, of c "enter args w"]]
  by (simp add: scenarioEnv_def)

lemma fooArgs_simps:
  "options (fooArgs\<lparr>externals := r\<rparr>) = plainOptions"
  "installPath (fooArgs\<lparr>externals := r\<rparr>) = ''/tmp/foo''"
  "name (fooArgs\<lparr>externals := r\<rparr>) = ''foo''"
  "options fooArgs = plainOptions" "installPath fooArgs = ''/tmp/foo''" "name fooArgs = ''foo''"
  "externals fooArgs = 1"
  by (simp_all add: fooArgs_def)

lemma fooArgs_store:
  "externals fooArgs < next_ref initialWorld"
  "externalPackages (objects initialWorld (externals fooArgs)) < next_ref initialWorld"
  "arrays initialWorld (externalPackages (objects initialWorld (externals fooArgs))) = []"
  by (simp_all add: fooArgs_def initialWorld_def)

lemma missingModuleOf_bar_lib: "missingModuleOf (moduleNotFound ''bar/lib/index'') = Inr ''bar''"
  by (simp add: missingModuleOf_def moduleNotFound_def firstSegmentRegex_def string_defs)

lemma parse_bar_lib: "parseMissingModules [moduleNotFound ''bar/lib/index''] = Inr [''bar'']"
  by (simp add: parseMissingModules_def missingModuleOf_bar_lib arrayFromSet_def setAdd_def
      startsWith_def)
     (simp add: moduleNotFound_def)

lemma missingModuleOf_bar: "missingModuleOf (moduleNotFound ''bar'') = Inr ''bar''"
  by (simp add: missingModuleOf_def moduleNotFound_def firstSegmentRegex_def string_defs)

lemma parse_bar: "parseMissingModules [moduleNotFound ''bar''] = Inr [''bar'']"
  by (simp add: parseMissingModules_def missingModuleOf_bar arrayFromSet_def setAdd_def
      startsWith_def)
     (simp add: moduleNotFound_def)

lemma missingModuleOf_letter:
  "c \<in> set ''abcdefg'' \<Longrightarrow> missingModuleOf (moduleNotFound [c]) = Inr [c]"
  by (auto simp: missingModuleOf_def moduleNotFound_def firstSegmentRegex_def string_defs)

lemma parse_seven:
  "parseMissingModules (map moduleNotFound [''a'', ''b'', ''c'', ''d'', ''e'', ''f'', ''g''])
     = Inr [''a'', ''b'', ''c'', ''d'', ''e'', ''f'', ''g'']"
  by (simp add: parseMissingModules_def missingModuleOf_letter arrayFromSet_def setAdd_def
      startsWith_def)
     (simp add: moduleNotFound_def)

lemma first_build_needs_bar:
  "fst (buildPackage (scenarioEnv compilerNeedsBar) fooArgs initialWorld) =
     Inl (MissingDependencyError [''Module not found: bar/lib/index''] [''bar''])"
  by (simp add: scenario_buildPackage fooArgs_simps compilerNeedsBar_def externalized_def
      scenario_store compileArgs_def initialWorld_def interpretOutcome_def failing_def
      failedStats_def buildFailed_def parse_bar_lib)
     (simp add: moduleNotFound_def)

lemma first_build_seven:
  "fst (buildPackage (scenarioEnv compilerSevenMissing) fooArgs initialWorld) =
     Inl (MissingDependencyError
            (map (\<lambda>m. ''Module not found: '' @ m) [''a'', ''b'', ''c'', ''d'', ''e'', ''f'', ''g''])
            [''a'', ''b'', ''c'', ''d'', ''e'', ''f'', ''g''])"
  by (simp add: scenario_buildPackage fooArgs_simps compilerSevenMissing_def
      interpretOutcome_def failing_def failedStats_def buildFailed_def parse_seven
      del: list.map)
     (simp add: moduleNotFound_def)

lemma build_never_bar:
  "fst (buildPackage (scenarioEnv compilerNeverBar) (fooArgs\<lparr>externals := r\<rparr>) w) =
     Inl (MissingDependencyError [''Module not found: bar''] [''bar''])"
  by (simp add: scenario_buildPackage fooArgs_simps compilerNeverBar_def
      interpretOutcome_def failing_def failedStats_def buildFailed_def parse_bar)
     (simp add: moduleNotFound_def)

lemma surviving_stray: "survivingAssets [mainAsset, statsJsonAsset] = [mainAsset, statsJsonAsset]"
  by (simp add: survivingAssets_def mainAsset_def statsJsonAsset_def endsWith_def)

lemma missingModuleOf_upper: "missingModuleOf (moduleNotFound ''UPPER'') = Inr ''UPPER''"
  by (simp add: missingModuleOf_def moduleNotFound_def firstSegmentRegex_def string_defs)

lemma parse_upper: "parseMissingModules [moduleNotFound ''UPPER''] = Inr [''UPPER'']"
  by (simp add: parseMissingModules_def missingModuleOf_upper arrayFromSet_def setAdd_def
      startsWith_def)
     (simp add: moduleNotFound_def)

lemma first_build_needs_upper:
  "fst (buildPackage (scenarioEnv compilerNeedsUpper) fooArgs initialWorld) =
     Inl (MissingDependencyError [''Module not found: UPPER''] [''UPPER''])"
  by (simp add: scenario_buildPackage fooArgs_simps compilerNeedsUpper_def externalized_def
      scenario_store compileArgs_def initialWorld_def interpretOutcome_def failing_def
      failedStats_def buildFailed_def parse_upper)
     (simp add: moduleNotFound_def)

lemma interpret_bundled_main:
  assumes "options args = plainOptions"
  shows "interpretOutcome (scenarioEnv c) args (bundling (Some [mainAsset])) =
           Inr \<lparr>assets = [mainStat], dependencySizes = None\<rparr>"
  using assms
  by (simp add: interpretOutcome_def bundling_def bundledStats_def buildSucceeded_def
      survivingAssets_def mainAsset_def getAssetStats_def scenarioEnv_def outputFiles_def
      plainOptions_def string_defs Let_def mainStat_def)

text \<open>
  The controller: when the first build throws a \<open>MissingDependencyError\<close> with at most 6
  missing modules for which \<open>every\<close> finds the check true, it builds exactly once more,
  with a new externals object whose \<open>externalPackages\<close> is the caller's list followed by
  the missing modules; a successful rebuild is returned with
  \<open>ignoredMissingDependencies\<close> set to the missing modules, a failed one throws its own
  error. Otherwise the error of the first build is thrown as it is, after one build.
\<close>

lemma retry_once_with_widened_externals:
  assumes "buildPackage e args w = (Inl (MissingDependencyError original missingModules), w1)"
  shows "if length missingModules \<le> 6 \<and> everyNameChecked e missingModules
         then (\<exists>newExternals w2 r2 w3.
                 widenExternals (externals args) missingModules w1 = (newExternals, w2) \<and>
                 arrays w2 (externalPackages (objects w2 newExternals))
                   = arrays w (externalPackages (objects w (externals args))) @ missingModules \<and>
                 otherFields (objects w2 newExternals) = otherFields (objects w (externals args)) \<and>
                 buildPackage e (args\<lparr>externals := newExternals\<rparr>) w2 = (r2, w3) \<and>
                 buildPackageIgnoringMissingDeps e args w =
                   (case r2 of
                      Inl err2 \<Rightarrow> Inl err2
                    | Inr rebuiltResult \<Rightarrow>
                        Inr (WithIgnoredMissingDependencies missingModules rebuiltResult), w3) \<and>
                 buildCallsOf (trace w3)
                   = buildCallsOf (trace w) @ [args, args\<lparr>externals := newExternals\<rparr>])
         else buildPackageIgnoringMissingDeps e args w
                = (Inl (MissingDependencyError original missingModules), w1) \<and>
              buildCallsOf (trace w1) = buildCallsOf (trace w) @ [args]"
proof (cases "length missingModules \<le> 6 \<and> everyNameChecked e missingModules")
  case False
  with assms buildPackage_frame [OF assms] show ?thesis
    by (auto simp: buildPackageIgnoringMissingDeps_def)
next
  case True
  note f1 = buildPackage_frame [OF assms]
  obtain ne w2 where wd: "widenExternals (externals args) missingModules w1 = (ne, w2)"
    by (cases "widenExternals (externals args) missingModules w1")
  note s = widenExternals_store [OF wd]
  obtain r2 w3 where b2: "buildPackage e (args\<lparr>externals := ne\<rparr>) w2 = (r2, w3)"
    by (cases "buildPackage e (args\<lparr>externals := ne\<rparr>) w2")
  note f2 = buildPackage_frame [OF b2]
  have res: "buildPackageIgnoringMissingDeps e args w =
      (case r2 of Inl err2 \<Rightarrow> Inl err2
       | Inr rebuiltResult \<Rightarrow> Inr (WithIgnoredMissingDependencies missingModules rebuiltResult), w3)"
    using assms True wd b2 by (simp add: buildPackageIgnoringMissingDeps_def split: sum.splits)
  have arr: "arrays w2 (externalPackages (objects w2 ne))
      = arrays w (externalPackages (objects w (externals args))) @ missingModules"
    using s f1 by auto
  have oth: "otherFields (objects w2 ne) = otherFields (objects w (externals args))"
    using s f1 by auto
  have calls: "buildCallsOf (trace w3) = buildCallsOf (trace w) @ [args, args\<lparr>externals := ne\<rparr>]"
    using f2 s f1 by auto
  from True wd arr oth b2 res calls show ?thesis by auto
qed

lemma everyNameChecked_reasons:
  "list_all (\<lambda>m. isValidNPMName e m \<noteq> InvalidName []) missingModules \<Longrightarrow>
   everyNameChecked e missingModules"
  by (induction missingModules)
     (auto simp: everyNameChecked_def truthy_def split: name_check.splits)

text \<open>
  Package \<open>foo\<close> misses \<open>bar\<close>: one retry, with \<open>bar\<close> externalized. With seven
  missing packages the error goes to the caller after a single build.
\<close>

lemma retry_scenarios:
  "(\<exists>newExternals w2 r2 w3.
      widenExternals 1 [''bar''] (snd (buildPackage (scenarioEnv compilerNeedsBar) fooArgs initialWorld))
        = (newExternals, w2) \<and>
      arrays w2 (externalPackages (objects w2 newExternals)) = [''bar''] \<and>
      buildPackage (scenarioEnv compilerNeedsBar) (fooArgs\<lparr>externals := newExternals\<rparr>) w2 = (r2, w3) \<and>
      buildPackageIgnoringMissingDeps (scenarioEnv compilerNeedsBar) fooArgs initialWorld =
        (case r2 of
           Inl err2 \<Rightarrow> Inl err2
         | Inr rebuiltResult \<Rightarrow> Inr (WithIgnoredMissingDependencies [''bar''] rebuiltResult), w3) \<and>
      buildCallsOf (trace w3) = [fooArgs, fooArgs\<lparr>externals := newExternals\<rparr>]) \<and>
   fst (buildPackageIgnoringMissingDeps (scenarioEnv compilerSevenMissing) fooArgs initialWorld) =
     Inl (MissingDependencyError
            (map (\<lambda>m. ''Module not found: '' @ m) [''a'', ''b'', ''c'', ''d'', ''e'', ''f'', ''g''])
            [''a'', ''b'', ''c'', ''d'', ''e'', ''f'', ''g'']) \<and>
   buildCallsOf (trace (snd (buildPackageIgnoringMissingDeps (scenarioEnv compilerSevenMissing)
     fooArgs initialWorld))) = [fooArgs]"
proof -
  let ?e = "scenarioEnv compilerNeedsBar"
  let ?s = "scenarioEnv compilerSevenMissing"
  let ?seven = "[''a'', ''b'', ''c'', ''d'', ''e'', ''f'', ''g'']"
  have b1: "buildPackage ?e fooArgs initialWorld =
      (Inl (MissingDependencyError [''Module not found: bar/lib/index''] [''bar'']),
       snd (buildPackage ?e fooArgs initialWorld))"
    by (simp add: prod_eq_iff first_build_needs_bar)
  have ok: "length [''bar''] \<le> 6 \<and> everyNameChecked ?e [''bar'']"
    by (simp add: scenarioEnv_def everyNameChecked_def scenarioNameCheck_def truthy_def)
  have b7: "buildPackage ?s fooArgs initialWorld =
      (Inl (MissingDependencyError (map (\<lambda>m. ''Module not found: '' @ m) ?seven) ?seven),
       snd (buildPackage ?s fooArgs initialWorld))"
    by (simp add: prod_eq_iff first_build_seven del: list.map)
  have no: "\<not> (length ?seven \<le> 6 \<and> everyNameChecked ?s ?seven)"
    by simp
  have tr: "trace initialWorld = []"
    by (simp add: initialWorld_def)
  have ar: "arrays initialWorld (externalPackages (objects initialWorld 1)) = []"
    by (simp add: initialWorld_def)
  have p1: "\<exists>newExternals w2 r2 w3.
      widenExternals 1 [''bar''] (snd (buildPackage ?e fooArgs initialWorld)) = (newExternals, w2) \<and>
      arrays w2 (externalPackages (objects w2 newExternals)) = [''bar''] \<and>
      buildPackage ?e (fooArgs\<lparr>externals := newExternals\<rparr>) w2 = (r2, w3) \<and>
      buildPackageIgnoringMissingDeps ?e fooArgs initialWorld =
        (case r2 of
           Inl err2 \<Rightarrow> Inl err2
         | Inr rebuiltResult \<Rightarrow> Inr (WithIgnoredMissingDependencies [''bar''] rebuiltResult), w3) \<and>
      buildCallsOf (trace w3) = [fooArgs, fooArgs\<lparr>externals := newExternals\<rparr>]"
    using retry_once_with_widened_externals [OF b1] ok
    by (simp only: simp_thms if_True fooArgs_simps tr buildCallsOf.simps append_Nil ar) blast
  have p2: "buildPackageIgnoringMissingDeps ?s fooArgs initialWorld =
      (Inl (MissingDependencyError (map (\<lambda>m. ''Module not found: '' @ m) ?seven) ?seven),
       snd (buildPackage ?s fooArgs initialWorld)) \<and>
     buildCallsOf (trace (snd (buildPackage ?s fooArgs initialWorld))) = [fooArgs]"
    using retry_once_with_widened_externals [OF b7] no
    by (simp only: simp_thms if_False tr buildCallsOf.simps append_Nil)
  from p2 have "fst (buildPackageIgnoringMissingDeps ?s fooArgs initialWorld) =
      Inl (MissingDependencyError (map (\<lambda>m. ''Module not found: '' @ m) ?seven) ?seven) \<and>
     buildCallsOf (trace (snd (buildPackageIgnoringMissingDeps ?s fooArgs initialWorld))) = [fooArgs]"
    by (simp only: fst_conv snd_conv simp_thms)
  with p1 show ?thesis by (rule conjI)
qed

text \<open>
  The example of the specification: errors citing \<open>lodash/get\<close> twice and \<open>lodash\<close>
  once yield exactly \<open>lodash\<close>.
\<close>

lemma parseMissingModules_lodash:
  "parseMissingModules
     [moduleNotFound ''lodash/get'', moduleNotFound ''lodash/get'', moduleNotFound ''lodash'']
     = Inr [''lodash'']"
proof -
  have a: "missingModuleOf (moduleNotFound ''lodash/get'') = Inr ''lodash''"
    by (simp add: missingModuleOf_def moduleNotFound_def firstSegmentRegex_def string_defs)
  have b: "missingModuleOf (moduleNotFound ''lodash'') = Inr ''lodash''"
    by (simp add: missingModuleOf_def moduleNotFound_def firstSegmentRegex_def string_defs)
  have n: "we_name (moduleNotFound p) = ''ModuleNotFoundError''" for p
    by (simp add: moduleNotFound_def)
  show ?thesis
    by (simp add: parseMissingModules_def n a b arrayFromSet_def setAdd_def startsWith_def)
qed

section \<open>The claims\<close>

subsection \<open>C1: an invocation error without stats\<close>

text \<open>
  Claim C1 asks that a build whose compiler returns an invocation error and no stats
  object fails with a \<open>BuildError\<close> wrapping that error. The source reads
  \<open>stats.toJson\<close> (line 217) before it tests \<open>error && !stats\<close> (line 246): whenever
  the compiler returns no stats object, whatever the invocation error, the build ends
  with the \<open>TypeError\<close> of that read, and the \<open>BuildError\<close> of line 247 is never thrown.
\<close>

theorem buildPackage_without_stats:
  assumes "makeEntry e args (enter args w) = (Inr (Some ent), w1)"
    and "stats (webpack_run e w1 (compileArgs args ent)) = None"
  shows "fst (buildPackage e args w) = Inl (TypeError ''Cannot read property toJson of undefined'')"
  using assms
  by (simp add: buildPackage_compiled interpretOutcome_def)

text \<open>
  The compiler of the scenario cannot run: it returns \<open>invocationError\<close> and no stats.
\<close>

theorem buildPackage_without_stats_witness:
  "error (compilerCannotRun initialWorld (compileArgs fooArgs mainEntry)) = Some invocationError \<and>
   stats (compilerCannotRun initialWorld (compileArgs fooArgs mainEntry)) = None \<and>
   fst (buildPackage (scenarioEnv compilerCannotRun) fooArgs initialWorld)
     = Inl (TypeError ''Cannot read property toJson of undefined'')"
proof -
  have m: "makeEntry (scenarioEnv compilerCannotRun) fooArgs (enter fooArgs initialWorld) =
      (Inr (Some mainEntry),
       snd (makeEntry (scenarioEnv compilerCannotRun) fooArgs (enter fooArgs initialWorld)))"
    by (rule scenario_makeEntry) (simp_all add: fooArgs_simps)
  have s: "stats (webpack_run (scenarioEnv compilerCannotRun)
      (snd (makeEntry (scenarioEnv compilerCannotRun) fooArgs (enter fooArgs initialWorld)))
      (compileArgs fooArgs mainEntry)) = None"
    by (simp add: scenarioEnv_def compilerCannotRun_def)
  from buildPackage_without_stats [OF m s] show ?thesis
    by (simp add: compilerCannotRun_def)
qed

subsection \<open>C2: the retry and the check of names\<close>

text \<open>
  Claim C2 asks that a \<open>MissingDependencyError\<close> with a name that is not a valid package
  name goes to the caller without a retry. The source retries when \<open>every\<close> finds the
  result of the check true for each name (line 357), and the result for a name that is
  not valid is a string that says why, which counts as true: the error is retried all
  the same. Here \<open>foo\<close> misses \<open>UPPER\<close>, the check refuses \<open>UPPER\<close>, and the controller
  builds twice, externalizes \<open>UPPER\<close> and returns the rebuilt result. The rest of the
  claim holds, by \<open>retry_once_with_widened_externals\<close>: one retry with the widened list
  when the names pass, no retry with seven or more names.
\<close>

theorem retry_on_invalid_name:
  "isValidNPMName (scenarioEnv compilerNeedsUpper) ''UPPER''
     = InvalidName ''package name cannot contain uppercase letters'' \<and>
   fst (buildPackage (scenarioEnv compilerNeedsUpper) fooArgs initialWorld)
     = Inl (MissingDependencyError [''Module not found: UPPER''] [''UPPER'']) \<and>
   fst (buildPackageIgnoringMissingDeps (scenarioEnv compilerNeedsUpper) fooArgs initialWorld)
     = Inr (WithIgnoredMissingDependencies [''UPPER'']
              \<lparr>assets = [mainStat], dependencySizes = None\<rparr>) \<and>
   length (buildCallsOf (trace (snd (buildPackageIgnoringMissingDeps
     (scenarioEnv compilerNeedsUpper) fooArgs initialWorld)))) = 2"
proof -
  let ?e = "scenarioEnv compilerNeedsUpper"
  have chk: "isValidNPMName ?e ''UPPER''
      = InvalidName ''package name cannot contain uppercase letters''"
    by (simp add: scenarioEnv_def scenarioNameCheck_def)
  have b1: "buildPackage ?e fooArgs initialWorld =
      (Inl (MissingDependencyError [''Module not found: UPPER''] [''UPPER'']),
       snd (buildPackage ?e fooArgs initialWorld))"
    by (simp add: prod_eq_iff first_build_needs_upper)
  have ok: "length [''UPPER''] \<le> 6 \<and> everyNameChecked ?e [''UPPER'']"
    by (simp add: scenarioEnv_def everyNameChecked_def scenarioNameCheck_def truthy_def)
  have tr: "trace initialWorld = []"
    by (simp add: initialWorld_def)
  have ar: "arrays initialWorld (externalPackages (objects initialWorld 1)) = []"
    by (simp add: initialWorld_def)
  from retry_once_with_widened_externals [OF b1] ok
  obtain ne w2 r2 w3 where
    wd: "widenExternals 1 [''UPPER''] (snd (buildPackage ?e fooArgs initialWorld)) = (ne, w2)"
    and arr: "arrays w2 (externalPackages (objects w2 ne)) = [''UPPER'']"
    and b2: "buildPackage ?e (fooArgs\<lparr>externals := ne\<rparr>) w2 = (r2, w3)"
    and res: "buildPackageIgnoringMissingDeps ?e fooArgs initialWorld =
      (case r2 of
         Inl err2 \<Rightarrow> Inl err2
       | Inr rebuiltResult \<Rightarrow> Inr (WithIgnoredMissingDependencies [''UPPER''] rebuiltResult), w3)"
    and calls: "buildCallsOf (trace w3) = [fooArgs, fooArgs\<lparr>externals := ne\<rparr>]"
    by (simp only: simp_thms if_True fooArgs_simps tr buildCallsOf.simps append_Nil ar) blast
  have "r2 = fst (buildPackage ?e (fooArgs\<lparr>externals := ne\<rparr>) w2)"
    using b2 by simp
  also have "\<dots> = interpretOutcome ?e (fooArgs\<lparr>externals := ne\<rparr>) (bundling (Some [mainAsset]))"
    using arr
    by (simp add: scenario_buildPackage fooArgs_simps compilerNeedsUpper_def externalized_def
        scenario_store compileArgs_def)
  also have "\<dots> = Inr \<lparr>assets = [mainStat], dependencySizes = None\<rparr>"
    by (rule interpret_bundled_main) (simp add: fooArgs_simps)
  finally have r2: "r2 = Inr \<lparr>assets = [mainStat], dependencySizes = None\<rparr>" .
  from res r2 calls chk first_build_needs_upper show ?thesis
    by simp
qed

subsection \<open>C3: the missing modules depend on the order of the errors\<close>

text \<open>
  Claim C3 asks that \<open>_parseMissingModules\<close> drops every name that is a sub-path of
  another detected name, and that its result does not depend on the order of the
  errors. The filter of line 171 compares with \<open>uniqueMissingModules[0]\<close> only: a
  sub-path of a name that is not the first one stays, and reordering the errors changes
  the result. Here \<open>@babel/runtime\<close> is a sub-path of \<open>@babel\<close>; it is kept when its error
  comes first and dropped when it comes second.
\<close>

theorem parseMissingModules_depends_on_order:
  "parseMissingModules
     [moduleNotFound ''@babel/runtime/helpers/create'', moduleNotFound ''/@babel'']
     = Inr [''@babel/runtime'', ''@babel''] \<and>
   parseMissingModules
     [moduleNotFound ''/@babel'', moduleNotFound ''@babel/runtime/helpers/create'']
     = Inr [''@babel'']"
proof -
  have a: "missingModuleOf (moduleNotFound ''@babel/runtime/helpers/create'') = Inr ''@babel/runtime''"
    by (simp add: missingModuleOf_def moduleNotFound_def string_defs)
  have b: "missingModuleOf (moduleNotFound ''/@babel'') = Inr ''@babel''"
    by (simp add: missingModuleOf_def moduleNotFound_def firstSegmentRegex_def string_defs)
  have n: "we_name (moduleNotFound p) = ''ModuleNotFoundError''" for p
    by (simp add: moduleNotFound_def)
  show ?thesis
    by (simp add: parseMissingModules_def n a b arrayFromSet_def setAdd_def startsWith_def)
qed

subsection \<open>C4: entry point or missing dependency\<close>

text \<open>
  Claim C4. When the compilation has errors from which the classifier extracts a
  non-empty list of missing modules, the build fails with an \<open>EntryPointError\<close> if that
  list is exactly the package under build, and otherwise (also when the package occurs
  among other names) with a \<open>MissingDependencyError\<close> that carries the list, whose
  elements are distinct. The hypotheses say that the entry point was written, that the
  compiler returned stats and that their JSON summary is not null.
\<close>

theorem buildPackage_missing_modules:
  assumes "makeEntry e args (enter args w) = (Inr (Some ent), w1)"
    and "stats (webpack_run e w1 (compileArgs args ent)) = Some st"
    and "toJson st = Some jsonStats"
    and "parseMissingModules (compilation_errors st) = Inr missingModules"
    and "missingModules \<noteq> []"
  shows "distinct missingModules \<and>
         fst (buildPackage e args w) =
           Inl (if missingModules = [name args]
                then EntryPointError (FromStrings (map we_toString (compilation_errors st)))
                else MissingDependencyError (map we_toString (compilation_errors st)) missingModules)"
proof -
  have ne: "compilation_errors st \<noteq> []"
    using assms(4,5) by (rule parseMissingModules_nonempty)
  have one: "(length missingModules = 1 \<and> missingModules ! 0 = name args) = (missingModules = [name args])"
    by (cases missingModules) auto
  show ?thesis
    using assms ne one
    by (simp add: buildPackage_compiled interpretOutcome_def buildFailed_def
        parseMissingModules_distinct split: option.splits)
qed

theorem buildPackage_missing_modules_witness:
  "parseMissingModules [moduleNotFound ''bar/lib/index''] = Inr [''bar''] \<and>
   fst (buildPackage (scenarioEnv compilerNeedsBar) fooArgs initialWorld)
     = Inl (MissingDependencyError [''Module not found: bar/lib/index''] [''bar''])"
proof -
  let ?e = "scenarioEnv compilerNeedsBar"
  let ?st = "failedStats [moduleNotFound ''bar/lib/index'']"
  have m: "makeEntry ?e fooArgs (enter fooArgs initialWorld) =
      (Inr (Some mainEntry), snd (makeEntry ?e fooArgs (enter fooArgs initialWorld)))"
    by (rule scenario_makeEntry) (simp_all add: fooArgs_simps)
  have s: "stats (webpack_run ?e (snd (makeEntry ?e fooArgs (enter fooArgs initialWorld)))
      (compileArgs fooArgs mainEntry)) = Some ?st"
    by (simp add: scenarioEnv_def [of compilerNeedsBar, THEN arg_cong, of webpack_run]
        compilerNeedsBar_def externalized_def scenario_store fooArgs_simps compileArgs_def
        initialWorld_def failing_def)
  have j: "toJson ?st = Some \<lparr>json_assets = Some [],
      json_errors = map we_toString [moduleNotFound ''bar/lib/index'']\<rparr>"
    by (simp add: failedStats_def)
  have p: "parseMissingModules (compilation_errors ?st) = Inr [''bar'']"
    by (simp add: failedStats_def parse_bar_lib)
  have n: "[''bar''] \<noteq> []" by simp
  from buildPackage_missing_modules [OF m s j p n] parse_bar_lib show ?thesis
    by (simp add: fooArgs_simps failedStats_def moduleNotFound_def)
qed

subsection \<open>C5: at most two builds\<close>

text \<open>
  Claim C5. A call of \<open>buildPackageIgnoringMissingDeps\<close> enters \<open>buildPackage\<close> once or
  twice; when the retried build throws, its error is the error of the call and no third
  build is made.
\<close>

theorem at_most_one_retry:
  assumes "buildPackageIgnoringMissingDeps e args w = (r, w')"
  shows "(\<exists>calls. buildCallsOf (trace w') = buildCallsOf (trace w) @ calls \<and>
                  1 \<le> length calls \<and> length calls \<le> 2) \<and>
         (\<forall>original missingModules w1 newExternals w2 err2 w3.
            buildPackage e args w = (Inl (MissingDependencyError original missingModules), w1) \<and>
            length missingModules \<le> 6 \<and> everyNameChecked e missingModules \<and>
            widenExternals (externals args) missingModules w1 = (newExternals, w2) \<and>
            buildPackage e (args\<lparr>externals := newExternals\<rparr>) w2 = (Inl err2, w3)
            \<longrightarrow> r = Inl err2 \<and> w' = w3 \<and>
                buildCallsOf (trace w') = buildCallsOf (trace w) @ [args, args\<lparr>externals := newExternals\<rparr>])"
proof (rule conjI)
  obtain r1 w1 where b1: "buildPackage e args w = (r1, w1)"
    by (cases "buildPackage e args w")
  note f1 = buildPackage_frame [OF b1]
  show "\<exists>calls. buildCallsOf (trace w') = buildCallsOf (trace w) @ calls \<and>
                1 \<le> length calls \<and> length calls \<le> 2"
  proof (cases "\<exists>original mm. r1 = Inl (MissingDependencyError original mm) \<and>
                   length mm \<le> 6 \<and> everyNameChecked e mm")
    case False
    with assms b1 have "w' = w1"
      by (auto simp: buildPackageIgnoringMissingDeps_def split: sum.splits build_error.splits if_splits)
    with f1 show ?thesis by simp
  next
    case True
    then obtain original mm where r1: "r1 = Inl (MissingDependencyError original mm)"
      and ok: "length mm \<le> 6 \<and> everyNameChecked e mm" by blast
    obtain ne w2 where wd: "widenExternals (externals args) mm w1 = (ne, w2)"
      by (cases "widenExternals (externals args) mm w1")
    obtain r2 w3 where b2: "buildPackage e (args\<lparr>externals := ne\<rparr>) w2 = (r2, w3)"
      by (cases "buildPackage e (args\<lparr>externals := ne\<rparr>) w2")
    from assms b1 r1 ok wd b2 have "w' = w3"
      by (auto simp: buildPackageIgnoringMissingDeps_def split: sum.splits)
    with buildPackage_frame [OF b2] widenExternals_store [OF wd] f1
    have "buildCallsOf (trace w') = buildCallsOf (trace w) @ [args, args\<lparr>externals := ne\<rparr>]"
      by auto
    then show ?thesis by simp
  qed
next
  show "\<forall>original missingModules w1 newExternals w2 err2 w3.
            buildPackage e args w = (Inl (MissingDependencyError original missingModules), w1) \<and>
            length missingModules \<le> 6 \<and> everyNameChecked e missingModules \<and>
            widenExternals (externals args) missingModules w1 = (newExternals, w2) \<and>
            buildPackage e (args\<lparr>externals := newExternals\<rparr>) w2 = (Inl err2, w3)
            \<longrightarrow> r = Inl err2 \<and> w' = w3 \<and>
                buildCallsOf (trace w') = buildCallsOf (trace w) @ [args, args\<lparr>externals := newExternals\<rparr>]"
  proof (intro allI impI)
  fix original missingModules w1 newExternals w2 err2 w3
  assume h: "buildPackage e args w = (Inl (MissingDependencyError original missingModules), w1) \<and>
            length missingModules \<le> 6 \<and> everyNameChecked e missingModules \<and>
            widenExternals (externals args) missingModules w1 = (newExternals, w2) \<and>
            buildPackage e (args\<lparr>externals := newExternals\<rparr>) w2 = (Inl err2, w3)"
  then have b1: "buildPackage e args w = (Inl (MissingDependencyError original missingModules), w1)"
    and wd: "widenExternals (externals args) missingModules w1 = (newExternals, w2)"
    and b2: "buildPackage e (args\<lparr>externals := newExternals\<rparr>) w2 = (Inl err2, w3)"
    by simp_all
  from assms h have res: "r = Inl err2 \<and> w' = w3"
    by (auto simp: buildPackageIgnoringMissingDeps_def)
  with buildPackage_frame [OF b2] widenExternals_store [OF wd] buildPackage_frame [OF b1]
  show "r = Inl err2 \<and> w' = w3 \<and>
        buildCallsOf (trace w') = buildCallsOf (trace w) @ [args, args\<lparr>externals := newExternals\<rparr>]"
    by auto
  qed
qed

text \<open>
  With a compiler that never resolves \<open>bar\<close> the retry fails as the first build did.
\<close>

theorem at_most_one_retry_witness:
  "fst (buildPackageIgnoringMissingDeps (scenarioEnv compilerNeverBar) fooArgs initialWorld)
     = Inl (MissingDependencyError [''Module not found: bar''] [''bar'']) \<and>
   length (buildCallsOf (trace (snd (buildPackageIgnoringMissingDeps (scenarioEnv compilerNeverBar)
     fooArgs initialWorld)))) = 2"
proof -
  let ?e = "scenarioEnv compilerNeverBar"
  let ?err = "MissingDependencyError [''Module not found: bar''] [''bar'']"
  let ?w1 = "snd (buildPackage ?e fooArgs initialWorld)"
  let ?ne = "fst (widenExternals (externals fooArgs) [''bar''] ?w1)"
  let ?w2 = "snd (widenExternals (externals fooArgs) [''bar''] ?w1)"
  let ?w3 = "snd (buildPackage ?e (fooArgs\<lparr>externals := ?ne\<rparr>) ?w2)"
  have run: "buildPackageIgnoringMissingDeps ?e fooArgs initialWorld =
      (fst (buildPackageIgnoringMissingDeps ?e fooArgs initialWorld),
       snd (buildPackageIgnoringMissingDeps ?e fooArgs initialWorld))"
    by simp
  have b1: "buildPackage ?e fooArgs initialWorld = (Inl ?err, ?w1)"
    using build_never_bar [of "externals fooArgs" initialWorld] by (simp add: prod_eq_iff)
  have ok: "length [''bar''] \<le> 6 \<and> everyNameChecked ?e [''bar'']"
    by (simp add: scenarioEnv_def everyNameChecked_def scenarioNameCheck_def truthy_def)
  have wd: "widenExternals (externals fooArgs) [''bar''] ?w1 = (?ne, ?w2)"
    by simp
  have b2: "buildPackage ?e (fooArgs\<lparr>externals := ?ne\<rparr>) ?w2 = (Inl ?err, ?w3)"
    by (simp add: prod_eq_iff build_never_bar)
  from at_most_one_retry [OF run]
  have "fst (buildPackageIgnoringMissingDeps ?e fooArgs initialWorld) = Inl ?err \<and>
        buildCallsOf (trace (snd (buildPackageIgnoringMissingDeps ?e fooArgs initialWorld))) =
          buildCallsOf (trace initialWorld) @ [fooArgs, fooArgs\<lparr>externals := ?ne\<rparr>]"
    using b1 ok wd b2 by blast
  moreover have "trace initialWorld = []"
    by (simp add: initialWorld_def)
  ultimately show ?thesis by simp
qed

subsection \<open>C6: the generated entry point\<close>




subsection \<open>C7: the caller's externals\<close>

text \<open>
  Claim C7. After a call of \<open>buildPackageIgnoringMissingDeps\<close> the caller's externals
  object and its \<open>externalPackages\<close> array hold what they held before; a retry is made
  with an object at another address, whose array is at another address too.
\<close>

theorem caller_externals_unchanged:
  assumes "buildPackageIgnoringMissingDeps e args w = (r, w')"
    and "externals args < next_ref w"
    and "externalPackages (objects w (externals args)) < next_ref w"
  shows "objects w' (externals args) = objects w (externals args) \<and>
         arrays w' (externalPackages (objects w (externals args)))
           = arrays w (externalPackages (objects w (externals args))) \<and>
         (buildCallsOf (trace w') = buildCallsOf (trace w) @ [args] \<or>
          (\<exists>newExternals.
             buildCallsOf (trace w')
               = buildCallsOf (trace w) @ [args, args\<lparr>externals := newExternals\<rparr>] \<and>
             newExternals \<noteq> externals args \<and>
             externalPackages (objects w' newExternals)
               \<noteq> externalPackages (objects w (externals args))))"
proof -
  obtain r1 w1 where b1: "buildPackage e args w = (r1, w1)"
    by (cases "buildPackage e args w")
  note f1 = buildPackage_frame [OF b1]
  show ?thesis
  proof (cases "\<exists>original mm. r1 = Inl (MissingDependencyError original mm) \<and>
                   length mm \<le> 6 \<and> everyNameChecked e mm")
    case False
    with assms(1) b1 have "w' = w1"
      by (auto simp: buildPackageIgnoringMissingDeps_def split: sum.splits build_error.splits if_splits)
    with f1 show ?thesis by simp
  next
    case True
    then obtain original mm where r1: "r1 = Inl (MissingDependencyError original mm)"
      and ok: "length mm \<le> 6 \<and> everyNameChecked e mm" by blast
    obtain ne w2 where wd: "widenExternals (externals args) mm w1 = (ne, w2)"
      by (cases "widenExternals (externals args) mm w1")
    obtain r2 w3 where b2: "buildPackage e (args\<lparr>externals := ne\<rparr>) w2 = (r2, w3)"
      by (cases "buildPackage e (args\<lparr>externals := ne\<rparr>) w2")
    from assms(1) b1 r1 ok wd b2 have w': "w' = w3"
      by (auto simp: buildPackageIgnoringMissingDeps_def split: sum.splits)
    note s = widenExternals_store [OF wd]
    note f2 = buildPackage_frame [OF b2]
    have obj: "objects w' (externals args) = objects w (externals args)"
      using w' f2 s f1 assms(2) by auto
    have arr: "arrays w' (externalPackages (objects w (externals args)))
           = arrays w (externalPackages (objects w (externals args)))"
      using w' f2 s f1 assms(3) by auto
    have calls: "buildCallsOf (trace w') = buildCallsOf (trace w) @ [args, args\<lparr>externals := ne\<rparr>]"
      using w' f2 s f1 by auto
    have fresh: "ne \<noteq> externals args \<and>
        externalPackages (objects w' ne) \<noteq> externalPackages (objects w (externals args))"
      using w' f2 s f1 assms(2,3) by auto
    from obj arr calls fresh show ?thesis by blast
  qed
qed

theorem caller_externals_unchanged_witness:
  "externals fooArgs < next_ref initialWorld \<and>
   objects (snd (buildPackageIgnoringMissingDeps (scenarioEnv compilerNeedsBar) fooArgs initialWorld)) 1
     = \<lparr>externalPackages = 0, otherFields = []\<rparr> \<and>
   arrays (snd (buildPackageIgnoringMissingDeps (scenarioEnv compilerNeedsBar) fooArgs initialWorld)) 0
     = []"
proof -
  let ?e = "scenarioEnv compilerNeedsBar"
  have run: "buildPackageIgnoringMissingDeps ?e fooArgs initialWorld =
      (fst (buildPackageIgnoringMissingDeps ?e fooArgs initialWorld),
       snd (buildPackageIgnoringMissingDeps ?e fooArgs initialWorld))"
    by simp
  from caller_externals_unchanged [OF run fooArgs_store(1) fooArgs_store(2)] fooArgs_store(1)
  show ?thesis by (simp add: fooArgs_def initialWorld_def)
qed

subsection \<open>C8: split mode without imports\<close>

text \<open>
  Claim C8. With \<open>splitCustomImports\<close> set and \<open>customImports\<close> absent or empty, the
  build returns \<open>{ assets: [] }\<close>, writes no file and does not run the compiler.
\<close>

theorem buildPackage_split_without_imports:
  assumes "splitCustomImports (options args)"
    and "customImports (options args) = None \<or> customImports (options args) = Some []"
  shows "fst (buildPackage e args w) = Inr \<lparr>assets = [], dependencySizes = None\<rparr> \<and>
         files (snd (buildPackage e args w)) = files w \<and>
         writesOf (trace (snd (buildPackage e args w))) = writesOf (trace w) \<and>
         compileCallsOf (trace (snd (buildPackage e args w))) = compileCallsOf (trace w)"
  using assms
  by (auto simp: buildPackage_def makeEntry_def enter_def writesOf_append compileCallsOf_append)

theorem buildPackage_split_without_imports_witness:
  "splitCustomImports (options splitNothingArgs) \<and>
   customImports (options splitNothingArgs) = Some [] \<and>
   fst (buildPackage (scenarioEnv compilerNeedsBar) splitNothingArgs initialWorld)
     = Inr \<lparr>assets = [], dependencySizes = None\<rparr> \<and>
   writesOf (trace (snd (buildPackage (scenarioEnv compilerNeedsBar) splitNothingArgs initialWorld))) = [] \<and>
   compileCallsOf (trace (snd (buildPackage (scenarioEnv compilerNeedsBar) splitNothingArgs initialWorld))) = []"
  using buildPackage_split_without_imports
    [of splitNothingArgs "scenarioEnv compilerNeedsBar" initialWorld]
  by (simp add: splitNothingArgs_def fooArgs_def plainOptions_def initialWorld_def)

subsection \<open>C9: an asset without the bundle suffix\<close>

text \<open>
  Claim C9. After a compilation without errors, an asset that survives the two filters
  and whose name does not match \<open><name>.bundle.<ext>\<close> makes the build fail: it never
  returns a result, and when the bundles of the surviving assets can be read from the
  compiler's file system the failure is the \<open>UnexpectedBuildError\<close> naming such an asset.
\<close>

theorem buildPackage_asset_without_bundle_suffix:
  assumes "makeEntry e args (enter args w) = (Inr (Some ent), w1)"
    and "webpack_run e w1 (compileArgs args ent) = ret"
    and "stats ret = Some st"
    and "compilation_errors st = []"
    and "toJson st = Some jsonStats"
    and "json_assets jsonStats = Some as"
    and "asset \<in> set (survivingAssets as)"
    and "bundleRegex (asset_name asset) = None"
  shows "(\<exists>err. fst (buildPackage e args w) = Inl err) \<and>
         (list_all (bundleReadable e (memoryFileSystem ret)) (survivingAssets as) \<longrightarrow>
            (\<exists>a. a \<in> set (survivingAssets as) \<and> bundleRegex (asset_name a) = None \<and>
                 fst (buildPackage e args w) = Inl (UnexpectedBuildError (noBundleSuffix (asset_name a)))))"
proof -
  let ?f = "getAssetStats e (options args) (memoryFileSystem ret)"
  have bp: "fst (buildPackage e args w) = buildSucceeded e args jsonStats (memoryFileSystem ret)"
    using assms(1-5) by (simp add: buildPackage_compiled interpretOutcome_def split: option.splits)
  obtain err where err: "mapThrowing ?f (survivingAssets as) = Inl err"
  proof (cases "mapThrowing ?f (survivingAssets as)")
    case (Inl err)
    then show ?thesis by (rule that)
  next
    case (Inr sts)
    from mapThrowing_Inr [OF this assms(7)] getAssetStats_no_match [OF assms(8), of e "options args" "memoryFileSystem ret"]
    show ?thesis by auto
  qed
  have res: "fst (buildPackage e args w) = Inl err"
    using bp err assms(6) by (simp add: buildSucceeded_def)
  show ?thesis
  proof (intro conjI impI)
    show "\<exists>err. fst (buildPackage e args w) = Inl err" using res by blast
  next
    assume rd: "list_all (bundleReadable e (memoryFileSystem ret)) (survivingAssets as)"
    from mapThrowing_Inl [OF err] obtain a where a: "a \<in> set (survivingAssets as)" "?f a = Inl err"
      by blast
    from rd a(1) have "bundleReadable e (memoryFileSystem ret) a"
      by (simp add: list_all_iff)
    from getAssetStats_readable_Inl [OF this a(2)] a(1) res
    show "\<exists>a. a \<in> set (survivingAssets as) \<and> bundleRegex (asset_name a) = None \<and>
              fst (buildPackage e args w) = Inl (UnexpectedBuildError (noBundleSuffix (asset_name a)))"
      by blast
  qed
qed

theorem buildPackage_asset_without_bundle_suffix_witness:
  "statsJsonAsset \<in> set (survivingAssets [mainAsset, statsJsonAsset]) \<and>
   bundleRegex (asset_name statsJsonAsset) = None \<and>
   fst (buildPackage (scenarioEnv compilerStrayAsset) fooArgs initialWorld)
     = Inl (UnexpectedBuildError (noBundleSuffix ''stats.json''))"
proof -
  let ?e = "scenarioEnv compilerStrayAsset"
  let ?as = "[mainAsset, statsJsonAsset]"
  let ?js = "\<lparr>json_assets = Some ?as, json_errors = []\<rparr>"
  have m: "makeEntry ?e fooArgs (enter fooArgs initialWorld) =
      (Inr (Some mainEntry), snd (makeEntry ?e fooArgs (enter fooArgs initialWorld)))"
    by (rule scenario_makeEntry) (simp_all add: fooArgs_simps)
  have r: "webpack_run ?e (snd (makeEntry ?e fooArgs (enter fooArgs initialWorld)))
      (compileArgs fooArgs mainEntry) = bundling (Some ?as)"
    by (simp add: scenarioEnv_def compilerStrayAsset_def)
  have s: "stats (bundling (Some ?as)) = Some (bundledStats (Some ?as))"
    by (simp add: bundling_def)
  have c: "compilation_errors (bundledStats (Some ?as)) = []"
    by (simp add: bundledStats_def)
  have j: "toJson (bundledStats (Some ?as)) = Some ?js"
    by (simp add: bundledStats_def)
  have a: "json_assets ?js = Some ?as" by simp
  have i: "statsJsonAsset \<in> set (survivingAssets ?as)"
    by (simp add: surviving_stray)
  have b: "bundleRegex (asset_name statsJsonAsset) = None"
    by (simp add: statsJsonAsset_def string_defs)
  have rd: "list_all (bundleReadable ?e (memoryFileSystem (bundling (Some ?as)))) (survivingAssets ?as)"
    unfolding surviving_stray
    by (simp add: bundleReadable_def scenarioEnv_def bundling_def outputFiles_def
        mainAsset_def statsJsonAsset_def)
  from buildPackage_asset_without_bundle_suffix [OF m r s c j a i b] rd
  obtain x where x: "x \<in> set (survivingAssets ?as)" "bundleRegex (asset_name x) = None"
    "fst (buildPackage ?e fooArgs initialWorld) = Inl (UnexpectedBuildError (noBundleSuffix (asset_name x)))"
    by blast
  have "bundleRegex (asset_name mainAsset) \<noteq> None"
    by (simp add: mainAsset_def string_defs)
  with x(1,2) have "x = statsJsonAsset"
    unfolding surviving_stray by auto
  moreover have "asset_name statsJsonAsset = ''stats.json''"
    by (simp add: statsJsonAsset_def)
  ultimately show ?thesis using x(3) i by (simp add: string_defs)
qed

subsection \<open>C10: a summary without asset list\<close>

text \<open>
  Claim C10. After a compilation without errors whose JSON summary has no \<open>assets\<close>
  field, the build returns a result, and its \<open>assets\<close> is the empty list.
\<close>

theorem buildPackage_no_assets_list:
  assumes "makeEntry e args (enter args w) = (Inr (Some ent), w1)"
    and "stats (webpack_run e w1 (compileArgs args ent)) = Some st"
    and "compilation_errors st = []"
    and "toJson st = Some jsonStats"
    and "json_assets jsonStats = None"
  shows "\<exists>res. fst (buildPackage e args w) = Inr res \<and> assets res = []"
  using assms
  by (simp add: buildPackage_compiled interpretOutcome_def buildSucceeded_def split: option.splits)

theorem buildPackage_no_assets_list_witness:
  "json_assets \<lparr>json_assets = None, json_errors = []\<rparr> = None \<and>
   (\<exists>res. fst (buildPackage (scenarioEnv compilerNoAssets) fooArgs initialWorld) = Inr res \<and>
          assets res = [])"
proof -
  have m: "makeEntry (scenarioEnv compilerNoAssets) fooArgs (enter fooArgs initialWorld) =
      (Inr (Some mainEntry),
       snd (makeEntry (scenarioEnv compilerNoAssets) fooArgs (enter fooArgs initialWorld)))"
    by (rule scenario_makeEntry) (simp_all add: fooArgs_simps)
  have s: "stats (webpack_run (scenarioEnv compilerNoAssets)
      (snd (makeEntry (scenarioEnv compilerNoAssets) fooArgs (enter fooArgs initialWorld)))
      (compileArgs fooArgs mainEntry)) = Some (bundledStats None)"
    by (simp add: scenarioEnv_def compilerNoAssets_def bundling_def)
  have c: "compilation_errors (bundledStats None) = []"
    by (simp add: bundledStats_def)
  have j: "toJson (bundledStats None) = Some \<lparr>json_assets = None, json_errors = []\<rparr>"
    by (simp add: bundledStats_def)
  have a: "json_assets \<lparr>json_assets = None, json_errors = []\<rparr> = None"
    by simp
  from buildPackage_no_assets_list [OF m s c j a] a show ?thesis by simp
qed

end
